theory Spec2Isabelle
  imports Main "HOL-Library.Sublist"
begin

section \<open>Strings of the host language\<close>

text \<open>
  A TypeScript string is a sequence of UTF-16 code units. It is modelled as a list of
  natural numbers, one per code unit, so that the localized messages of the source and
  every white-space character of the language are representable. ASCII literals of the
  source are written \<open>str ''...''\<close>.
\<close>

type_synonym jstring = "nat list"

definition str :: "string \<Rightarrow> jstring" where
  "str s = map of_char s"

text \<open>
  \<open>String.prototype.trim\<close> removes WhiteSpace and LineTerminator code points from both
  ends: TAB, LF, VT, FF, CR, SP, NBSP, U+1680, U+2000..U+200A, U+2028, U+2029, U+202F,
  U+205F, U+3000 and U+FEFF.
\<close>

definition is_ws :: "nat \<Rightarrow> bool" where
  "is_ws c \<longleftrightarrow>
     (9 \<le> c \<and> c \<le> 13) \<or> c = 32 \<or> c = 160 \<or> c = 5760 \<or> (8192 \<le> c \<and> c \<le> 8202) \<or>
     c = 8232 \<or> c = 8233 \<or> c = 8239 \<or> c = 8287 \<or> c = 12288 \<or> c = 65279"

definition trim :: "jstring \<Rightarrow> jstring" where
  "trim s = rev (dropWhile is_ws (rev (dropWhile is_ws s)))"

text \<open>
  \<open>s.split(",")\<close> with a one-unit separator: the pieces between the separators, in order;
  the empty string gives one empty piece.
\<close>

fun split :: "nat \<Rightarrow> jstring \<Rightarrow> jstring list" where
  "split sep [] = [[]]"
| "split sep (c # cs) =
     (if c = sep then [] # split sep cs
      else (case split sep cs of
              p # ps \<Rightarrow> (c # p) # ps
            | [] \<Rightarrow> [[c]]))"

text \<open>\<open>xs.join(sep)\<close>.\<close>

fun join :: "jstring \<Rightarrow> jstring list \<Rightarrow> jstring" where
  "join sep [] = []"
| "join sep [x] = x"
| "join sep (x # y # ys) = x @ sep @ join sep (y # ys)"

text \<open>\<open>Boolean(s)\<close> on a string: the empty string is the only falsy one.\<close>

definition Boolean_str :: "jstring \<Rightarrow> bool" where
  "Boolean_str s \<longleftrightarrow> s \<noteq> []"

definition comma :: nat where
  "comma = 44"

text \<open>\<open>String(n)\<close> for a non-negative integer such as an HTTP status: its decimal digits.\<close>

fun show_nat :: "nat \<Rightarrow> jstring" where
  "show_nat n = (if n < 10 then [48 + n] else show_nat (n div 10) @ [48 + n mod 10])"

declare show_nat.simps [simp del]

text \<open>\<open>s.startsWith(p)\<close> and \<open>s.slice(n)\<close> for \<open>n \<ge> 0\<close>.\<close>

definition startsWith :: "jstring \<Rightarrow> jstring \<Rightarrow> bool" where
  "startsWith s p \<longleftrightarrow> take (length p) s = p"

definition slice :: "jstring \<Rightarrow> nat \<Rightarrow> jstring" where
  "slice s n = drop n s"

section \<open>JSON values and the host\<close>

text \<open>
  A number produced by \<open>JSON.parse\<close> is an IEEE double that is not NaN: a zero of either
  sign, an infinity (from overflow), or a finite non-zero value, kept as mantissa and
  binary exponent. Only its truthiness is ever read by the program.
\<close>

datatype number = PosZero | NegZero | PosInf | NegInf | Finite int int

text \<open>
  A parsed JSON value. An object is the list of its own properties in order; a parsed
  object has each key once, and \<open>map_of\<close> reads it.
\<close>

datatype json =
    JNull
  | JBool bool
  | JNum number
  | JStr jstring
  | JArr "json list"
  | JObj "(jstring \<times> json) list"

text \<open>\<open>ToBoolean\<close>, as applied by \<open>if (v)\<close> and \<open>!v\<close>; \<open>None\<close> is \<open>undefined\<close>.\<close>

fun truthy :: "json \<Rightarrow> bool" where
  "truthy JNull = False"
| "truthy (JBool b) = b"
| "truthy (JNum n) = (n \<noteq> PosZero \<and> n \<noteq> NegZero)"
| "truthy (JStr s) = (s \<noteq> [])"
| "truthy (JArr xs) = True"
| "truthy (JObj kvs) = True"

text \<open>
  The values a \<open>throw\<close> or a rejected promise carries. \<open>Error m\<close> is \<open>new Error(m)\<close> of the
  program; the others are raised by the host: a \<open>TypeError\<close> (a property of \<open>null\<close> or
  \<open>undefined\<close> is read, or a non-function is called), the \<open>SyntaxError\<close> of \<open>JSON.parse\<close>
  and \<open>res.json()\<close>, a rejected \<open>fetch\<close>, and the \<open>error\<close> event of a request stream.
\<close>

datatype error = Error jstring | TypeError | SyntaxError | FetchFailed | StreamError

text \<open>
  Reading property \<open>k\<close> of a parsed value \<open>v\<close> (\<open>v.k\<close>), for the property names of this
  program, none of which is inherited from a prototype: \<open>null\<close> throws, an object gives
  its own property or \<open>undefined\<close>, every other value gives \<open>undefined\<close>.
\<close>

fun get_prop :: "json \<Rightarrow> jstring \<Rightarrow> error + json option" where
  "get_prop JNull k = Inl TypeError"
| "get_prop (JObj kvs) k = Inr (map_of kvs k)"
| "get_prop v k = Inr None"

record fetch_request =
  url :: jstring
  fetch_method :: jstring
  fetch_headers :: "(jstring \<times> jstring) list"
  fetch_body :: "jstring option"

record fetch_response =
  status :: nat
  statusText :: jstring
  body_text :: jstring

text \<open>\<open>res.ok\<close>: the status is in the range 200 to 299.\<close>

definition ok :: "fetch_response \<Rightarrow> bool" where
  "ok res \<longleftrightarrow> 200 \<le> status res \<and> status res \<le> 299"

text \<open>
  The host the program runs on: the platform behind \<open>fetch\<close> (\<open>Inl\<close> when the promise
  rejects), \<open>JSON.parse\<close> (\<open>None\<close> when it throws), \<open>JSON.stringify\<close>, and the \<open>message\<close>
  property of the errors the host raises. Every theorem below holds for every host.
\<close>

record host =
  fetch :: "fetch_request \<Rightarrow> error + fetch_response"
  JSON_parse :: "jstring \<Rightarrow> json option"
  JSON_stringify :: "json \<Rightarrow> jstring"
  host_message :: "error \<Rightarrow> jstring"

text \<open>\<open>err.message\<close>.\<close>

fun message :: "host \<Rightarrow> error \<Rightarrow> jstring" where
  "message h (Error m) = m"
| "message h e = host_message h e"

text \<open>\<open>res.json()\<close>: the body text parsed, or the promise rejected.\<close>

definition res_json :: "host \<Rightarrow> fetch_response \<Rightarrow> error + json" where
  "res_json h res = (case JSON_parse h (body_text res) of None \<Rightarrow> Inl SyntaxError | Some v \<Rightarrow> Inr v)"

text \<open>
  An asynchronous function that calls the platform returns its result, or the error it
  throws, together with the requests it sent, in order.
\<close>

type_synonym 'a result = "(error + 'a) \<times> fetch_request list"

text \<open>
  \<open>new Set(xs)\<close> keeps the first occurrence of each element in insertion order;
  \<open>s.has(x)\<close> is membership.
\<close>

fun Set_add :: "'a list \<Rightarrow> 'a \<Rightarrow> 'a list" where
  "Set_add s x = (if List.member s x then s else s @ [x])"

definition Set_new :: "'a list \<Rightarrow> 'a list" where
  "Set_new xs = foldl Set_add [] xs"

definition Set_has :: "'a list \<Rightarrow> 'a \<Rightarrow> bool" where
  "Set_has s x = List.member s x"

text \<open>\<open>xs.map(f)\<close> with a callback that may throw: the first throw ends the call.\<close>

fun map_throwing :: "('a \<Rightarrow> error + 'b) \<Rightarrow> 'a list \<Rightarrow> error + 'b list" where
  "map_throwing f [] = Inr []"
| "map_throwing f (x # xs) =
     (case f x of
        Inl e \<Rightarrow> Inl e
      | Inr y \<Rightarrow> (case map_throwing f xs of Inl e \<Rightarrow> Inl e | Inr ys \<Rightarrow> Inr (y # ys)))"

section \<open>shopify-graphql-core.ts\<close>

text \<open>
  The core module. The standalone script that preceded it has the same
  \<open>getRequiredScopes\<close>, \<open>runShopifyQuery\<close> and \<open>getMissingScopes\<close>, with the scopes string and
  the API version read from the environment variables \<open>SHOPIFY_SCOPES\<close> and
  \<open>SHOPIFY_API_VERSION\<close> in place of the parameters; the definitions below are those
  functions with the variable's value as the argument.
\<close>

definition DEFAULT_SCOPES :: jstring where
  "DEFAULT_SCOPES = str ''read_orders,read_products,read_customers,read_inventory''"

record ShopifyConfig =
  shopDomain :: jstring
  accessToken :: jstring
  apiVersion :: "jstring option"
  scopes :: "jstring option"

record GraphqlParams =
  gp_shop :: jstring
  gp_accessToken :: jstring
  gp_query :: jstring
  gp_variables :: "json option"
  gp_apiVersion :: "jstring option"

text \<open>
  \<open>getRequiredScopes(scopesEnv?)\<close>: \<open>None\<close> is \<open>undefined\<close>, which \<open>??\<close> replaces by the
  default (an empty string is kept).
\<close>

definition getRequiredScopes :: "jstring option \<Rightarrow> jstring list" where
  "getRequiredScopes scopesEnv =
     (let scopes = (case scopesEnv of None \<Rightarrow> DEFAULT_SCOPES | Some s \<Rightarrow> s)
      in filter Boolean_str (map trim (split comma scopes)))"

subsection \<open>runShopifyQuery\<close>

text \<open>The request of lines 52 to 60; an \<open>undefined\<close> \<open>variables\<close> is left out by \<open>JSON.stringify\<close>.\<close>

definition graphql_request :: "host \<Rightarrow> GraphqlParams \<Rightarrow> fetch_request" where
  "graphql_request h p =
     (let apiVersion = (case gp_apiVersion p of None \<Rightarrow> str ''2024-10'' | Some v \<Rightarrow> v);
          endpoint = str ''https://'' @ gp_shop p @ str ''/admin/api/'' @ apiVersion
                       @ str ''/graphql.json''
      in \<lparr>url = endpoint,
          fetch_method = str ''POST'',
          fetch_headers = [(str ''Content-Type'', str ''application/json''),
                           (str ''X-Shopify-Access-Token'', gp_accessToken p)],
          fetch_body = Some (JSON_stringify h
            (JObj ((str ''query'', JStr (gp_query p)) #
                   (case gp_variables p of None \<Rightarrow> [] | Some v \<Rightarrow> [(str ''variables'', v)]))))\<rparr>)"

text \<open>Lines 62 to 72: what is made of the response.\<close>

definition graphql_response :: "host \<Rightarrow> fetch_response \<Rightarrow> error + json" where
  "graphql_response h res =
     (if \<not> ok res then
        Inl (Error (str ''Shopify API error ('' @ show_nat (status res) @ str '' ''
                      @ statusText res @ str ''): '' @ body_text res))
      else
        (case res_json h res of
           Inl e \<Rightarrow> Inl e
         | Inr data \<Rightarrow>
             (case get_prop data (str ''errors'') of
                Inl e \<Rightarrow> Inl e
              | Inr (Some errors) \<Rightarrow>
                  if truthy errors then
                    Inl (Error (str ''Shopify GraphQL errors: '' @ JSON_stringify h errors))
                  else
                    (case get_prop data (str ''data'') of
                       Inr (Some d) \<Rightarrow> if d = JNull then Inr data else Inr d
                     | _ \<Rightarrow> Inr data)
              | Inr None \<Rightarrow>
                  (case get_prop data (str ''data'') of
                     Inr (Some d) \<Rightarrow> if d = JNull then Inr data else Inr d
                   | _ \<Rightarrow> Inr data))))"

definition runShopifyQuery :: "host \<Rightarrow> GraphqlParams \<Rightarrow> json result" where
  "runShopifyQuery h p =
     (let rq = graphql_request h p
      in (case fetch h rq of
            Inl e \<Rightarrow> (Inl e, [rq])
          | Inr res \<Rightarrow> (graphql_response h res, [rq])))"

subsection \<open>getMissingScopes\<close>

definition scopes_request :: "jstring \<Rightarrow> jstring \<Rightarrow> fetch_request" where
  "scopes_request shop token =
     \<lparr>url = str ''https://'' @ shop @ str ''/admin/oauth/access_scopes.json'',
      fetch_method = str ''GET'',
      fetch_headers = [(str ''X-Shopify-Access-Token'', token)],
      fetch_body = None\<rparr>"

text \<open>\<open>scope.handle.trim()\<close>: only a string has \<open>trim\<close>.\<close>

definition handle_trim :: "json \<Rightarrow> error + jstring" where
  "handle_trim scope =
     (case get_prop scope (str ''handle'') of
        Inl e \<Rightarrow> Inl e
      | Inr (Some (JStr s)) \<Rightarrow> Inr (trim s)
      | Inr _ \<Rightarrow> Inl TypeError)"

text \<open>\<open>data.access_scopes.map((scope) => scope.handle.trim())\<close>: only an array has \<open>map\<close>.\<close>

definition granted_handles :: "json \<Rightarrow> error + jstring list" where
  "granted_handles data =
     (case get_prop data (str ''access_scopes'') of
        Inl e \<Rightarrow> Inl e
      | Inr (Some (JArr xs)) \<Rightarrow> map_throwing handle_trim xs
      | Inr _ \<Rightarrow> Inl TypeError)"

text \<open>
  The message of line 89 begins with the localized text
  U+83B7 U+53D6 \<open>Shopify\<close> U+6388 U+6743 \<open>scope\<close> U+5931 U+8D25 and an opening
  parenthesis.
\<close>

definition scope_fetch_failed :: jstring where
  "scope_fetch_failed =
     [33719, 21462, 32] @ str ''Shopify'' @ [32, 25480, 26435, 32] @ str ''scope''
       @ [32, 22833, 36133, 32] @ str ''(''"

definition scopes_response :: "host \<Rightarrow> jstring list \<Rightarrow> fetch_response \<Rightarrow> error + jstring list" where
  "scopes_response h requiredScopes res =
     (if \<not> ok res then
        Inl (Error (scope_fetch_failed @ show_nat (status res) @ str '' '' @ statusText res
                      @ str ''): '' @ body_text res))
      else
        (case res_json h res of
           Inl e \<Rightarrow> Inl e
         | Inr data \<Rightarrow>
             (case granted_handles data of
                Inl e \<Rightarrow> Inl e
              | Inr handles \<Rightarrow>
                  (let granted = Set_new (filter Boolean_str handles)
                   in Inr (filter (\<lambda>scope. \<not> Set_has granted scope) requiredScopes)))))"

definition getMissingScopes :: "host \<Rightarrow> jstring \<Rightarrow> jstring \<Rightarrow> jstring list \<Rightarrow> jstring list result" where
  "getMissingScopes h shop token requiredScopes =
     (let rq = scopes_request shop token
      in (case fetch h rq of
            Inl e \<Rightarrow> (Inl e, [rq])
          | Inr res \<Rightarrow> (scopes_response h requiredScopes res, [rq])))"

subsection \<open>validateAndQuery\<close>

text \<open>
  The message of line 113: \<open>Shopify\<close>, the localized text U+5E94 U+7528 U+7F3A U+5C11
  U+4EE5 U+4E0B U+6388 U+6743 U+FF1A, the missing scopes joined by a comma and a space,
  and the localized request to reinstall the application.
\<close>

definition missing_prefix :: jstring where
  "missing_prefix =
     str ''Shopify '' @ [24212, 29992, 32570, 23569, 20197, 19979, 25480, 26435, 65306]"

definition missing_suffix :: jstring where
  "missing_suffix =
     [12290, 35831, 37325, 26032, 23433, 35013, 24212, 29992, 20197, 25480, 20104, 36825,
      20123, 32] @ str ''scope'' @ [12290]"

definition missing_scopes_message :: "jstring list \<Rightarrow> jstring" where
  "missing_scopes_message missingScopes =
     missing_prefix @ join (str '', '') missingScopes @ missing_suffix"

text \<open>\<open>apiVersion || "2024-10"\<close>: \<open>undefined\<close> and the empty string give the default.\<close>

definition apiVersion_or_default :: "jstring option \<Rightarrow> jstring" where
  "apiVersion_or_default v =
     (case v of None \<Rightarrow> str ''2024-10'' | Some s \<Rightarrow> if s = [] then str ''2024-10'' else s)"

definition validateAndQuery :: "host \<Rightarrow> ShopifyConfig \<Rightarrow> jstring \<Rightarrow> json option \<Rightarrow> json result" where
  "validateAndQuery h config query variables =
     (let requiredScopes = getRequiredScopes (scopes config)
      in (case getMissingScopes h (shopDomain config) (accessToken config) requiredScopes of
            (Inl e, calls) \<Rightarrow> (Inl e, calls)
          | (Inr missingScopes, calls) \<Rightarrow>
              if length missingScopes > 0 then
                (Inl (Error (missing_scopes_message missingScopes)), calls)
              else
                (case runShopifyQuery h
                        \<lparr>gp_shop = shopDomain config,
                         gp_accessToken = accessToken config,
                         gp_query = query,
                         gp_variables = variables,
                         gp_apiVersion = Some (apiVersion_or_default (apiVersion config))\<rparr> of
                   (r, calls') \<Rightarrow> (r, calls @ calls'))))"

section \<open>graphql-server.ts\<close>


text \<open>
  An incoming request, as the listener reads it: \<open>req.method\<close>; \<open>url.pathname\<close> of
  \<open>new URL(req.url || "/", base)\<close>, \<open>None\<close> when the constructor throws;
  \<open>req.headers.authorization\<close>; and the body the stream delivers, or its failure.
\<close>

datatype body_stream = Body jstring | BodyFailed

record request =
  req_method :: jstring
  req_pathname :: "jstring option"
  req_authorization :: "jstring option"
  req_body :: body_stream

text \<open>What \<open>res.writeHead\<close> and \<open>res.end\<close> send; \<open>None\<close> is \<open>res.end()\<close> with no body.\<close>

record response =
  statusCode :: nat
  res_headers :: "(jstring \<times> jstring) list"
  res_payload :: "jstring option"

definition sendJson :: "host \<Rightarrow> nat \<Rightarrow> json \<Rightarrow> response" where
  "sendJson h code data =
     \<lparr>statusCode = code,
      res_headers = [(str ''Content-Type'', str ''application/json''),
                     (str ''Access-Control-Allow-Origin'', str ''*''),
                     (str ''Access-Control-Allow-Methods'', str ''POST, GET, OPTIONS''),
                     (str ''Access-Control-Allow-Headers'', str ''Content-Type, Authorization'')],
      res_payload = Some (JSON_stringify h data)\<rparr>"

definition errors_payload :: "jstring \<Rightarrow> json" where
  "errors_payload msg = JObj [(str ''errors'', JArr [JObj [(str ''message'', JStr msg)]])]"

definition sendError :: "host \<Rightarrow> nat \<Rightarrow> jstring \<Rightarrow> response" where
  "sendError h code msg = sendJson h code (errors_payload msg)"

definition validateApiKey :: "jstring option \<Rightarrow> request \<Rightarrow> bool" where
  "validateApiKey key req =
     (case key of
        None \<Rightarrow> True
      | Some k \<Rightarrow>
          if k = [] then True
          else
            (case req_authorization req of
               None \<Rightarrow> False
             | Some authHeader \<Rightarrow>
                 if authHeader = [] then False
                 else
                   (let token = (if startsWith authHeader (str ''Bearer '')
                                 then slice authHeader 7 else authHeader)
                    in token = k)))"

definition parseRequestBody :: "host \<Rightarrow> request \<Rightarrow> error + json" where
  "parseRequestBody h req =
     (case req_body req of
        BodyFailed \<Rightarrow> Inl StreamError
      | Body b \<Rightarrow>
          (case JSON_parse h b of
             None \<Rightarrow> Inl (Error (str ''Invalid JSON body''))
           | Some parsed \<Rightarrow> Inr parsed))"

text \<open>
  \<open>handleGraphQLRequest\<close>: the response sent and the requests made to the platform. The
  destructuring of line 98 reads \<open>query\<close> and \<open>variables\<close> of the parsed body and throws on
  \<open>null\<close>; everything thrown inside the \<open>try\<close> is answered with status 500 and the
  message of the error (every value thrown here is an \<open>Error\<close> instance, so the
  \<open>"Unknown error"\<close> alternative of line 113 is never taken).
\<close>

definition handleGraphQLRequest :: "host \<Rightarrow> jstring option \<Rightarrow> request \<Rightarrow> ShopifyConfig \<Rightarrow> response \<times> fetch_request list" where
  "handleGraphQLRequest h key req config =
     (if \<not> validateApiKey key req then
        (sendError h 401 (str ''Unauthorized: Invalid or missing API key''), [])
      else
        (case parseRequestBody h req of
           Inl err \<Rightarrow> (sendError h 500 (message h err), [])
         | Inr parsed \<Rightarrow>
             (case get_prop parsed (str ''query'') of
                Inl err \<Rightarrow> (sendError h 500 (message h err), [])
              | Inr query \<Rightarrow>
                  (case get_prop parsed (str ''variables'') of
                     Inl err \<Rightarrow> (sendError h 500 (message h err), [])
                   | Inr variables \<Rightarrow>
                       (case query of
                          Some (JStr q) \<Rightarrow>
                            if q = [] then
                              (sendError h 400 (str ''Missing or invalid 'query' field''), [])
                            else
                              (case validateAndQuery h config q variables of
                                 (Inl err, calls) \<Rightarrow> (sendError h 500 (message h err), calls)
                               | (Inr data, calls) \<Rightarrow>
                                   (sendJson h 200 (JObj [(str ''data'', data)]), calls))
                        | _ \<Rightarrow>
                            (sendError h 400 (str ''Missing or invalid 'query' field''), []))))))"

definition handleHealthCheck :: "host \<Rightarrow> response" where
  "handleHealthCheck h =
     sendJson h 200 (JObj [(str ''status'', JStr (str ''ok'')),
                           (str ''service'', JStr (str ''shopify-graphql-proxy''))])"

definition handleIntrospection :: "host \<Rightarrow> response" where
  "handleIntrospection h =
     sendJson h 200
       (JObj [(str ''data'',
          JObj [(str ''__schema'',
            JObj [(str ''description'', JStr (str ''Shopify Admin GraphQL API Proxy'')),
                  (str ''queryType'', JObj [(str ''name'', JStr (str ''QueryRoot''))]),
                  (str ''mutationType'', JObj [(str ''name'', JStr (str ''Mutation''))]),
                  (str ''types'', JArr [])])])])"

definition preflight :: response where
  "preflight =
     \<lparr>statusCode = 204,
      res_headers = [(str ''Access-Control-Allow-Origin'', str ''*''),
                     (str ''Access-Control-Allow-Methods'', str ''POST, GET, OPTIONS''),
                     (str ''Access-Control-Allow-Headers'', str ''Content-Type, Authorization''),
                     (str ''Access-Control-Max-Age'', str ''86400'')],
      res_payload = None\<rparr>"

text \<open>
  The request listener of \<open>main\<close> (lines 150 to 184): the response sent, if any, and the
  requests made to the platform. When \<open>new URL\<close> throws nothing is sent.
\<close>

definition listener :: "host \<Rightarrow> jstring option \<Rightarrow> ShopifyConfig \<Rightarrow> request \<Rightarrow> response option \<times> fetch_request list" where
  "listener h key config req =
     (case req_pathname req of
        None \<Rightarrow> (None, [])
      | Some path \<Rightarrow>
          if req_method req = str ''OPTIONS'' then (Some preflight, [])
          else if path = str ''/health'' \<or> path = str ''/'' then (Some (handleHealthCheck h), [])
          else if path = str ''/graphql'' then
            (if req_method req = str ''POST'' then
               (case handleGraphQLRequest h key req config of
                  (res, calls) \<Rightarrow> (Some res, calls))
             else if req_method req = str ''GET'' then (Some (handleIntrospection h), [])
             else
               (Some (sendError h 405 (str ''Method not allowed. Use POST for GraphQL queries.'')),
                []))
          else
            (Some (sendError h 404 (str ''Not found. Use /graphql endpoint for GraphQL queries.'')),
             []))"

section \<open>A concrete host\<close>

text \<open>
  A host fixed for evaluation: a shop that grants \<open>read_products\<close> and \<open>read_orders\<close> (the
  second with surrounding blanks) and answers the GraphQL endpoint of version 2024-10;
  further shops answer with an \<open>errors\<close> list, with an empty one and with a \<open>null\<close>
  \<open>data\<close>. \<open>JSON.parse\<close> and \<open>JSON.stringify\<close> are tables on the texts and values that
  occur: a text outside the table does not parse, and a value outside it is never
  serialized in an evaluation.
\<close>

definition demo_scopes_text :: jstring where
  "demo_scopes_text =
     str ''{\"access_scopes\":[{\"handle\":\"read_products\"},{\"handle\":\" read_orders \"}]}''"

definition demo_scopes_json :: json where
  "demo_scopes_json =
     JObj [(str ''access_scopes'',
            JArr [JObj [(str ''handle'', JStr (str ''read_products''))],
                  JObj [(str ''handle'', JStr (str '' read_orders ''))]])]"

definition demo_shop_text :: jstring where
  "demo_shop_text = str ''{\"data\":{\"shop\":{\"name\":\"Test Shop\"}}}''"

definition demo_shop_data :: json where
  "demo_shop_data = JObj [(str ''shop'', JObj [(str ''name'', JStr (str ''Test Shop''))])]"

definition demo_body_text :: jstring where
  "demo_body_text = str ''{\"query\":\"query { shop { name } }\"}''"

definition demo_query :: jstring where
  "demo_query = str ''query { shop { name } }''"

definition demo_endpoint :: "jstring \<Rightarrow> jstring" where
  "demo_endpoint shop = str ''https://'' @ shop @ str ''/admin/api/2024-10/graphql.json''"

definition demo_fetch :: "fetch_request \<Rightarrow> error + fetch_response" where
  "demo_fetch rq =
     (if url rq = str ''https://demo.myshop.test/admin/oauth/access_scopes.json'' then
        Inr \<lparr>status = 200, statusText = str ''OK'', body_text = demo_scopes_text\<rparr>
      else if url rq = demo_endpoint (str ''demo.myshop.test'') then
        Inr \<lparr>status = 200, statusText = str ''OK'', body_text = demo_shop_text\<rparr>
      else if url rq = demo_endpoint (str ''errors.myshop.test'') then
        Inr \<lparr>status = 200, statusText = str ''OK'',
             body_text = str ''{\"data\":{},\"errors\":[{\"message\":\"boom\"}]}''\<rparr>
      else if url rq = demo_endpoint (str ''empty-errors.myshop.test'') then
        Inr \<lparr>status = 200, statusText = str ''OK'',
             body_text = str ''{\"data\":{},\"errors\":[]}''\<rparr>
      else if url rq = demo_endpoint (str ''null-data.myshop.test'') then
        Inr \<lparr>status = 200, statusText = str ''OK'', body_text = str ''{\"data\":null}''\<rparr>
      else Inl FetchFailed)"

definition demo_parse :: "jstring \<Rightarrow> json option" where
  "demo_parse s =
     (if s = demo_scopes_text then Some demo_scopes_json
      else if s = demo_shop_text then Some (JObj [(str ''data'', demo_shop_data)])
      else if s = demo_body_text then Some (JObj [(str ''query'', JStr demo_query)])
      else if s = str ''{\"data\":{},\"errors\":[{\"message\":\"boom\"}]}''
        then Some (JObj [(str ''data'', JObj []),
                         (str ''errors'', JArr [JObj [(str ''message'', JStr (str ''boom''))]])])
      else if s = str ''{\"data\":{},\"errors\":[]}''
        then Some (JObj [(str ''data'', JObj []), (str ''errors'', JArr [])])
      else if s = str ''{\"data\":null}'' then Some (JObj [(str ''data'', JNull)])
      else if s = str ''null'' then Some JNull
      else if s = str ''{}'' then Some (JObj [])
      else None)"

definition demo_stringify :: "json \<Rightarrow> jstring" where
  "demo_stringify v =
     (if v = JArr [] then str ''[]''
      else if v = JArr [JObj [(str ''message'', JStr (str ''boom''))]]
        then str ''[{\"message\":\"boom\"}]''
      else if v = JObj [(str ''query'', JStr demo_query)] then demo_body_text
      else if v = JObj [(str ''data'', demo_shop_data)] then demo_shop_text
      else if v = errors_payload (str ''Invalid JSON body'')
        then str ''{\"errors\":[{\"message\":\"Invalid JSON body\"}]}''
      else [])"

definition demo_host :: host where
  "demo_host =
     \<lparr>fetch = demo_fetch, JSON_parse = demo_parse, JSON_stringify = demo_stringify,
      host_message = (\<lambda>e. str ''host error'')\<rparr>"

definition demo_config :: ShopifyConfig where
  "demo_config =
     \<lparr>shopDomain = str ''demo.myshop.test'', accessToken = str ''shpat_x'',
      apiVersion = None, scopes = Some (str ''read_orders,read_products'')\<rparr>"

text \<open>The parameters of a query to the GraphQL endpoint of a shop of the table.\<close>

definition demo_params :: "jstring \<Rightarrow> GraphqlParams" where
  "demo_params shop =
     \<lparr>gp_shop = shop, gp_accessToken = str ''shpat_x'', gp_query = demo_query,
      gp_variables = None, gp_apiVersion = None\<rparr>"

text \<open>A request to the server: method, path, \<open>Authorization\<close> header and body.\<close>

definition demo_request :: "string \<Rightarrow> string \<Rightarrow> jstring option \<Rightarrow> jstring \<Rightarrow> request" where
  "demo_request m path auth b =
     \<lparr>req_method = str m, req_pathname = Some (str path), req_authorization = auth,
      req_body = Body b\<rparr>"

text \<open>A configuration that requires two scopes the demonstration shop does not grant.\<close>

definition demo_config_missing :: ShopifyConfig where
  "demo_config_missing =
     demo_config\<lparr>scopes := Some (str ''read_inventory, read_orders,read_customers'')\<rparr>"

section \<open>Properties of the string operations\<close>

lemma str_inj [simp]: "str a = str b \<longleftrightarrow> a = b"
proof -
  have "inj (of_char :: char \<Rightarrow> nat)"
    by (rule inj_on_inverseI [where g = char_of]) simp
  then show ?thesis
    unfolding str_def by (simp add: inj_eq)
qed

lemma str_append [simp]: "str (a @ b) = str a @ str b"
  by (simp add: str_def)

lemma length_str [simp]: "length (str s) = length s"
  by (simp add: str_def)

lemma str_Nil [simp]: "str [] = []"
  by (simp add: str_def)

lemma split_not_Nil [simp]: "split sep s \<noteq> []"
  by (induction s) (auto split: list.splits)

lemma split_no_sep: "p \<in> set (split sep s) \<Longrightarrow> sep \<notin> set p"
proof (induction s arbitrary: p)
  case Nil
  then show ?case by simp
next
  case (Cons c cs)
  show ?case
  proof (cases "c = sep")
    case True
    with Cons show ?thesis by auto
  next
    case False
    obtain q qs where q: "split sep cs = q # qs"
      by (cases "split sep cs") simp_all
    with Cons.prems False have "p = c # q \<or> p \<in> set qs" by simp
    then show ?thesis
    proof
      assume "p = c # q"
      moreover have "sep \<notin> set q" using Cons.IH [of q] q by simp
      ultimately show ?thesis using False by auto
    next
      assume "p \<in> set qs"
      then show ?thesis using Cons.IH [of p] q by simp
    qed
  qed
qed

lemma join_Cons: "ps \<noteq> [] \<Longrightarrow> join sep (p # ps) = p @ sep @ join sep ps"
  by (cases ps) simp_all

lemma join_split: "join [sep] (split sep s) = s"
proof (induction s)
  case Nil
  then show ?case by simp
next
  case (Cons c cs)
  show ?case
  proof (cases "c = sep")
    case True
    with Cons show ?thesis by (simp add: join_Cons)
  next
    case False
    obtain q qs where q: "split sep cs = q # qs"
      by (cases "split sep cs") simp_all
    have "join [sep] ((c # q) # qs) = c # join [sep] (q # qs)"
      by (cases qs) simp_all
    with Cons q False show ?thesis by simp
  qed
qed

lemma trim_no_leading_ws: "trim s \<noteq> [] \<Longrightarrow> \<not> is_ws (hd (trim s))"
proof -
  assume ne: "trim s \<noteq> []"
  let ?t = "dropWhile is_ws s"
  have "trim s = []" if "?t = []"
    unfolding trim_def that by simp
  with ne have t: "?t \<noteq> []" by blast
  then have h: "\<not> is_ws (hd ?t)" by (rule hd_dropWhile)
  have "?t = trim s @ rev (takeWhile is_ws (rev ?t))"
    unfolding trim_def by (metis rev_append rev_rev_ident takeWhile_dropWhile_id)
  then have "hd ?t = hd (trim s)" using ne by (metis hd_append2)
  with h show ?thesis by simp
qed

lemma trim_no_trailing_ws: "trim s \<noteq> [] \<Longrightarrow> \<not> is_ws (last (trim s))"
proof -
  assume ne: "trim s \<noteq> []"
  then have "dropWhile is_ws (rev (dropWhile is_ws s)) \<noteq> []"
    by (simp add: trim_def)
  then have "\<not> is_ws (hd (dropWhile is_ws (rev (dropWhile is_ws s))))"
    by (rule hd_dropWhile)
  then show ?thesis using ne by (simp add: trim_def last_rev)
qed

lemma trim_sublist: "\<exists>l r. s = l @ trim s @ r \<and> (\<forall>c\<in>set l. is_ws c) \<and> (\<forall>c\<in>set r. is_ws c)"
proof -
  let ?t = "dropWhile is_ws s"
  have 1: "s = takeWhile is_ws s @ ?t" by simp
  have 2: "?t = trim s @ rev (takeWhile is_ws (rev ?t))"
    unfolding trim_def by (metis rev_append rev_rev_ident takeWhile_dropWhile_id)
  have 3: "\<forall>c\<in>set (takeWhile is_ws s). is_ws c"
    by (auto dest: set_takeWhileD)
  have 4: "\<forall>c\<in>set (rev (takeWhile is_ws (rev ?t))). is_ws c"
    by (auto dest: set_takeWhileD)
  from 1 2 have "s = takeWhile is_ws s @ trim s @ rev (takeWhile is_ws (rev ?t))"
    by metis
  with 3 4 show ?thesis by blast
qed

lemma set_trim_subset: "set (trim s) \<subseteq> set s"
proof -
  obtain l r where "s = l @ trim s @ r" using trim_sublist by blast
  then have "set s = set l \<union> set (trim s) \<union> set r" by (metis set_append Un_assoc)
  then show ?thesis by blast
qed

section \<open>The required-scope list\<close>

text \<open>
  Claim C5, first half of the refutation: the scopes string is split on commas, each
  entry trimmed and the empty entries discarded, but nothing removes a repeated entry.
  The configuration \<open>read_orders,read_orders\<close> gives a list with a duplicate.
\<close>

theorem getRequiredScopes_duplicates:
  "\<not> distinct (getRequiredScopes (Some (str ''read_orders,read_orders'')))"
  by (simp add: getRequiredScopes_def str_def comma_def trim_def is_ws_def Boolean_str_def)

text \<open>
  Claim C5, as amended: for every scopes configuration (absent, it is the default
  string) the required-scope list is the list of the comma-separated pieces of the
  string, each trimmed, without the empty ones, in order; the pieces joined by commas
  give the string back; and every entry of the list is non-empty, begins and ends with
  a character that is not white space, and contains no comma. Repeated entries stay.
\<close>

theorem getRequiredScopes_entries:
  "getRequiredScopes scopesEnv =
     filter (\<lambda>t. t \<noteq> [])
       (map trim (split comma (case scopesEnv of None \<Rightarrow> DEFAULT_SCOPES | Some s \<Rightarrow> s)))
   \<and> join [comma] (split comma (case scopesEnv of None \<Rightarrow> DEFAULT_SCOPES | Some s \<Rightarrow> s))
       = (case scopesEnv of None \<Rightarrow> DEFAULT_SCOPES | Some s \<Rightarrow> s)
   \<and> (\<forall>x\<in>set (getRequiredScopes scopesEnv).
         x \<noteq> [] \<and> \<not> is_ws (hd x) \<and> \<not> is_ws (last x) \<and> comma \<notin> set x)"
proof -
  let ?src = "case scopesEnv of None \<Rightarrow> DEFAULT_SCOPES | Some s \<Rightarrow> s"
  have eq: "getRequiredScopes scopesEnv = filter (\<lambda>t. t \<noteq> []) (map trim (split comma ?src))"
    unfolding getRequiredScopes_def Let_def Boolean_str_def by (rule refl)
  have ent: "x \<noteq> [] \<and> \<not> is_ws (hd x) \<and> \<not> is_ws (last x) \<and> comma \<notin> set x"
    if "x \<in> set (getRequiredScopes scopesEnv)" for x
  proof -
    from that eq obtain p where p: "p \<in> set (split comma ?src)"
      and x: "x = trim p" and ne: "x \<noteq> []"
      by auto
    have "comma \<notin> set p" using p by (rule split_no_sep)
    then have "comma \<notin> set x" using set_trim_subset [of p] x by blast
    with ne x show ?thesis
      using trim_no_leading_ws [of p] trim_no_trailing_ws [of p] by simp
  qed
  show ?thesis using eq ent join_split [of comma ?src] by blast
qed

theorem getRequiredScopes_entries_witness:
  "getRequiredScopes (Some (str '' a, ,b,a '')) = [str ''a'', str ''b'', str ''a'']
   \<and> str ''a'' \<noteq> [] \<and> \<not> is_ws (hd (str ''a'')) \<and> \<not> is_ws (last (str ''a''))
   \<and> comma \<notin> set (str ''a'')
   \<and> str ''b'' \<noteq> [] \<and> \<not> is_ws (hd (str ''b'')) \<and> \<not> is_ws (last (str ''b''))
   \<and> comma \<notin> set (str ''b'')"
proof -
  have v: "getRequiredScopes (Some (str '' a, ,b,a '')) = [str ''a'', str ''b'', str ''a'']"
    by (simp add: getRequiredScopes_def str_def comma_def trim_def is_ws_def Boolean_str_def)
  have "\<forall>x\<in>set (getRequiredScopes (Some (str '' a, ,b,a ''))).
          x \<noteq> [] \<and> \<not> is_ws (hd x) \<and> \<not> is_ws (last x) \<and> comma \<notin> set x"
    using getRequiredScopes_entries [of "Some (str '' a, ,b,a '')"] by blast
  with v show ?thesis by simp
qed

section \<open>The scope check\<close>

lemma str_eq_Nil [simp]: "str s = [] \<longleftrightarrow> s = []"
  by (simp add: str_def)

lemma set_foldl_Set_add: "set (foldl Set_add acc xs) = set acc \<union> set xs"
  by (induction xs arbitrary: acc) auto

lemma set_Set_new: "set (Set_new xs) = set xs"
  by (simp add: Set_new_def set_foldl_Set_add)

lemma Set_has_new: "Set_has (Set_new xs) x \<longleftrightarrow> x \<in> set xs"
  by (simp add: Set_has_def set_Set_new)

lemma handle_trim_object:
  "map_of fs (str ''handle'') = Some (JStr s) \<Longrightarrow> handle_trim (JObj fs) = Inr (trim s)"
  by (simp add: handle_trim_def)

lemma map_throwing_handles:
  "list_all2 (\<lambda>x s. \<exists>fs. x = JObj fs \<and> map_of fs (str ''handle'') = Some (JStr s)) xs hs
   \<Longrightarrow> map_throwing handle_trim xs = Inr (map trim hs)"
proof (induction xs hs rule: list_all2_induct)
  case Nil
  then show ?case by simp
next
  case (Cons x xs s hs)
  then obtain fs where "x = JObj fs" "map_of fs (str ''handle'') = Some (JStr s)" by blast
  then have "handle_trim x = Inr (trim s)" by (simp add: handle_trim_object)
  with Cons.IH show ?case by simp
qed

lemma demo_scopes_fetch:
  "fetch demo_host (scopes_request (str ''demo.myshop.test'') (str ''shpat_x''))
     = Inr \<lparr>status = 200, statusText = str ''OK'', body_text = demo_scopes_text\<rparr>"
  by (simp add: demo_host_def demo_fetch_def scopes_request_def demo_endpoint_def str_def)

lemma demo_scopes_parse:
  "JSON_parse demo_host demo_scopes_text
     = Some (JObj [(str ''access_scopes'',
            JArr [JObj [(str ''handle'', JStr (str ''read_products''))],
                  JObj [(str ''handle'', JStr (str '' read_orders ''))]])])"
  by (simp add: demo_host_def demo_parse_def demo_scopes_json_def)

text \<open>
  Claim C1: when the platform answers the scope request with a success status and a
  body that parses to an object whose \<open>access_scopes\<close> is an array of objects with string
  handles \<open>hs\<close>, \<open>getMissingScopes\<close> sends that one request and returns exactly the entries
  of the required list \<open>R\<close> that are not in the granted set (the trimmed handles, without
  the empty ones), in the order of \<open>R\<close>; the result is a subsequence of \<open>R\<close>, and it is
  empty exactly when every element of \<open>R\<close> is granted.
\<close>

theorem getMissingScopes_difference:
  assumes "fetch h (scopes_request shop token) = Inr res"
    and "ok res"
    and "JSON_parse h (body_text res) = Some (JObj kvs)"
    and "map_of kvs (str ''access_scopes'') = Some (JArr xs)"
    and "list_all2 (\<lambda>x s. \<exists>fs. x = JObj fs \<and> map_of fs (str ''handle'') = Some (JStr s)) xs hs"
  shows "\<exists>ms. getMissingScopes h shop token R = (Inr ms, [scopes_request shop token])
           \<and> ms = filter (\<lambda>r. r \<notin> {t. t \<noteq> [] \<and> t \<in> trim ` set hs}) R
           \<and> subseq ms R
           \<and> (ms = [] \<longleftrightarrow> set R \<subseteq> {t. t \<noteq> [] \<and> t \<in> trim ` set hs})"
proof -
  let ?G = "{t. t \<noteq> [] \<and> t \<in> trim ` set hs}"
  let ?ms = "filter (\<lambda>r. r \<notin> ?G) R"
  have handles: "granted_handles (JObj kvs) = Inr (map trim hs)"
    using assms(4) map_throwing_handles [OF assms(5)] by (simp add: granted_handles_def)
  have has: "Set_has (Set_new (filter Boolean_str (map trim hs))) r \<longleftrightarrow> r \<in> ?G" for r
    by (auto simp: Set_has_new Boolean_str_def)
  have "scopes_response h R res = Inr ?ms"
    using assms(2,3) handles by (simp add: scopes_response_def res_json_def has)
  then have 1: "getMissingScopes h shop token R = (Inr ?ms, [scopes_request shop token])"
    using assms(1) by (simp add: getMissingScopes_def)
  have 2: "subseq ?ms R" by simp
  have 3: "?ms = [] \<longleftrightarrow> set R \<subseteq> ?G"
    by (auto simp: filter_empty_conv)
  from 1 2 3 show ?thesis by blast
qed

theorem getMissingScopes_difference_witness:
  "fetch demo_host (scopes_request (str ''demo.myshop.test'') (str ''shpat_x''))
     = Inr \<lparr>status = 200, statusText = str ''OK'', body_text = demo_scopes_text\<rparr>
   \<and> ok \<lparr>status = 200, statusText = str ''OK'', body_text = demo_scopes_text\<rparr>
   \<and> getMissingScopes demo_host (str ''demo.myshop.test'') (str ''shpat_x'')
        [str ''read_orders'', str ''read_inventory'', str ''read_products'']
      = (Inr [str ''read_inventory''],
         [scopes_request (str ''demo.myshop.test'') (str ''shpat_x'')])"
proof -
  let ?res = "\<lparr>status = 200, statusText = str ''OK'', body_text = demo_scopes_text\<rparr>"
  have okr: "ok ?res" by (simp add: ok_def)
  have p: "JSON_parse demo_host (body_text ?res)
     = Some (JObj [(str ''access_scopes'',
            JArr [JObj [(str ''handle'', JStr (str ''read_products''))],
                  JObj [(str ''handle'', JStr (str '' read_orders ''))]])])"
    using demo_scopes_parse by simp
  have m: "map_of [(str ''access_scopes'',
            JArr [JObj [(str ''handle'', JStr (str ''read_products''))],
                  JObj [(str ''handle'', JStr (str '' read_orders ''))]])] (str ''access_scopes'')
      = Some (JArr [JObj [(str ''handle'', JStr (str ''read_products''))],
                  JObj [(str ''handle'', JStr (str '' read_orders ''))]])"
    by simp
  have l: "list_all2 (\<lambda>x s. \<exists>fs. x = JObj fs \<and> map_of fs (str ''handle'') = Some (JStr s))
             [JObj [(str ''handle'', JStr (str ''read_products''))],
              JObj [(str ''handle'', JStr (str '' read_orders ''))]]
             [str ''read_products'', str '' read_orders '']"
    by simp
  have t: "trim (str ''read_products'') = str ''read_products''"
          "trim (str '' read_orders '') = str ''read_orders''"
    by (simp_all add: trim_def str_def is_ws_def)
  from getMissingScopes_difference [OF demo_scopes_fetch okr p m l,
      of "[str ''read_orders'', str ''read_inventory'', str ''read_products'']"]
  have "getMissingScopes demo_host (str ''demo.myshop.test'') (str ''shpat_x'')
        [str ''read_orders'', str ''read_inventory'', str ''read_products'']
      = (Inr [str ''read_inventory''],
         [scopes_request (str ''demo.myshop.test'') (str ''shpat_x'')])"
    by (simp add: t)
  with demo_scopes_fetch okr show ?thesis by simp
qed

section \<open>The orchestration\<close>

lemma getMissingScopes_calls:
  "snd (getMissingScopes h shop token R) = [scopes_request shop token]"
  by (simp add: getMissingScopes_def Let_def split: sum.splits)

lemma runShopifyQuery_calls: "snd (runShopifyQuery h p) = [graphql_request h p]"
  by (simp add: runShopifyQuery_def Let_def split: sum.splits)

lemma graphql_request_not_scopes: "graphql_request h p \<noteq> scopes_request shop token"
proof
  assume "graphql_request h p = scopes_request shop token"
  then have "fetch_method (graphql_request h p) = fetch_method (scopes_request shop token)"
    by simp
  then show False by (simp add: graphql_request_def scopes_request_def Let_def)
qed

text \<open>
  Claim C2: for every host, configuration, query and variables, the first request
  \<open>validateAndQuery\<close> sends is the scope request; a GraphQL request is sent at most once,
  after it, and only when the scope check returned no missing scope. Whenever the scope
  check returns a non-empty list of missing scopes, the call fails with the error whose
  message lists them, joined by a comma and a space, between the fixed localized texts,
  the scope request is the only request sent, and no GraphQL request is among the
  requests of that run.
\<close>

theorem validateAndQuery_scope_check_first:
  "(\<exists>r rest. validateAndQuery h config query variables
        = (r, scopes_request (shopDomain config) (accessToken config) # rest)
      \<and> (rest = [] \<or>
          (\<exists>p. rest = [graphql_request h p]) \<and>
          fst (getMissingScopes h (shopDomain config) (accessToken config)
                 (getRequiredScopes (scopes config))) = Inr []))
   \<and> (\<forall>ms. fst (getMissingScopes h (shopDomain config) (accessToken config)
                  (getRequiredScopes (scopes config))) = Inr ms \<and> ms \<noteq> [] \<longrightarrow>
          validateAndQuery h config query variables
            = (Inl (Error (missing_prefix @ join (str '', '') ms @ missing_suffix)),
               [scopes_request (shopDomain config) (accessToken config)])
          \<and> (\<forall>p. graphql_request h p \<notin> set (snd (validateAndQuery h config query variables))))"
proof -
  let ?g = "getMissingScopes h (shopDomain config) (accessToken config)
              (getRequiredScopes (scopes config))"
  let ?sr = "scopes_request (shopDomain config) (accessToken config)"
  obtain r0 where g: "?g = (r0, [?sr])"
    using getMissingScopes_calls [of h "shopDomain config" "accessToken config"
        "getRequiredScopes (scopes config)"]
    by (cases ?g) simp
  show ?thesis
  proof (cases r0)
    case (Inl e)
    with g have "validateAndQuery h config query variables = (Inl e, [?sr])"
      by (simp add: validateAndQuery_def)
    with g Inl show ?thesis by simp
  next
    case (Inr ms)
    show ?thesis
    proof (cases "ms = []")
      case True
      let ?p = "\<lparr>gp_shop = shopDomain config, gp_accessToken = accessToken config,
                 gp_query = query, gp_variables = variables,
                 gp_apiVersion = Some (apiVersion_or_default (apiVersion config))\<rparr>"
      obtain r1 where q: "runShopifyQuery h ?p = (r1, [graphql_request h ?p])"
        using runShopifyQuery_calls [of h ?p] by (cases "runShopifyQuery h ?p") simp
      from g Inr True q
      have "validateAndQuery h config query variables = (r1, [?sr, graphql_request h ?p])"
        by (simp add: validateAndQuery_def)
      with g Inr True show ?thesis by auto
    next
      case False
      with g Inr
      have v: "validateAndQuery h config query variables
          = (Inl (Error (missing_prefix @ join (str '', '') ms @ missing_suffix)), [?sr])"
        by (simp add: validateAndQuery_def missing_scopes_message_def)
      with g Inr False show ?thesis
        by (simp add: graphql_request_not_scopes)
    qed
  qed
qed

lemma demo_missing:
  "getMissingScopes demo_host (str ''demo.myshop.test'') (str ''shpat_x'')
        [str ''read_inventory'', str ''read_orders'', str ''read_customers'']
      = (Inr [str ''read_inventory'', str ''read_customers''],
         [scopes_request (str ''demo.myshop.test'') (str ''shpat_x'')])"
  by (simp add: getMissingScopes_def demo_scopes_fetch scopes_response_def ok_def res_json_def
      demo_scopes_parse granted_handles_def handle_trim_def Set_has_new Boolean_str_def Let_def)
     (simp add: trim_def str_def is_ws_def)


theorem validateAndQuery_scope_check_first_witness:
  "fst (getMissingScopes demo_host (shopDomain demo_config_missing) (accessToken demo_config_missing)
          (getRequiredScopes (scopes demo_config_missing)))
     = Inr [str ''read_inventory'', str ''read_customers'']
   \<and> [str ''read_inventory'', str ''read_customers''] \<noteq> []
   \<and> validateAndQuery demo_host demo_config_missing demo_query None
       = (Inl (Error (missing_prefix @ str ''read_inventory, read_customers'' @ missing_suffix)),
          [scopes_request (str ''demo.myshop.test'') (str ''shpat_x'')])"
proof -
  have r: "getRequiredScopes (scopes demo_config_missing)
      = [str ''read_inventory'', str ''read_orders'', str ''read_customers'']"
    by (simp add: demo_config_missing_def getRequiredScopes_def str_def comma_def trim_def is_ws_def
        Boolean_str_def)
  have c: "shopDomain demo_config_missing = str ''demo.myshop.test''" "accessToken demo_config_missing = str ''shpat_x''"
    by (simp_all add: demo_config_missing_def demo_config_def)
  have m: "fst (getMissingScopes demo_host (shopDomain demo_config_missing) (accessToken demo_config_missing)
          (getRequiredScopes (scopes demo_config_missing)))
     = Inr [str ''read_inventory'', str ''read_customers'']"
    by (simp add: r c demo_missing)
  from validateAndQuery_scope_check_first [of demo_host demo_config_missing demo_query None] m
  have "validateAndQuery demo_host demo_config_missing demo_query None
       = (Inl (Error (missing_prefix @ join (str '', '') [str ''read_inventory'', str ''read_customers''] @ missing_suffix)),
          [scopes_request (shopDomain demo_config_missing) (accessToken demo_config_missing)])"
    by blast
  with m show ?thesis by (simp add: c str_def)
qed

section \<open>The query forwarder\<close>

lemma demo_graphql_url:
  "url (graphql_request demo_host (demo_params shop)) = demo_endpoint shop"
  by (simp add: graphql_request_def demo_params_def demo_endpoint_def str_def)

lemma get_prop_Some:
  "get_prop data k = Inr (Some v) \<longleftrightarrow> (\<exists>kvs. data = JObj kvs \<and> map_of kvs k = Some v)"
  by (cases data) auto

lemma get_prop_Inl: "get_prop data k = Inl e \<longleftrightarrow> data = JNull \<and> e = TypeError"
  by (cases data) auto


lemma graphql_response_no_errors:
  assumes "ok res" and "JSON_parse h (body_text res) = Some data" and "data \<noteq> JNull"
    and "\<not> (\<exists>kvs errs. data = JObj kvs \<and> map_of kvs (str ''errors'') = Some errs \<and> truthy errs)"
  shows "graphql_response h res
           = Inr (case get_prop data (str ''data'') of
                    Inr (Some d) \<Rightarrow> if d = JNull then data else d
                  | _ \<Rightarrow> data)"
proof (cases "get_prop data (str ''errors'')")
  case (Inl e)
  with assms(3) show ?thesis by (simp add: get_prop_Inl)
next
  case (Inr eo)
  show ?thesis
  proof (cases eo)
    case None
    with Inr assms(1,2) show ?thesis
      by (simp add: graphql_response_def res_json_def split: sum.splits option.splits)
  next
    case (Some errs)
    with Inr assms(4) have "\<not> truthy errs" by (auto simp: get_prop_Some)
    with Some Inr assms(1,2) show ?thesis
      by (simp add: graphql_response_def res_json_def split: sum.splits option.splits)
  qed
qed


lemma runShopifyQuery_fetched:
  "fetch h (graphql_request h p) = Inr res \<Longrightarrow> fst (runShopifyQuery h p) = graphql_response h res"
  by (simp add: runShopifyQuery_def Let_def)





lemma demo_fetch_null_data:
  "fetch demo_host (graphql_request demo_host (demo_params (str ''null-data.myshop.test'')))
     = Inr \<lparr>status = 200, statusText = str ''OK'', body_text = str ''{\"data\":null}''\<rparr>"
  by (simp add: demo_host_def demo_fetch_def demo_graphql_url [simplified demo_host_def])
     (simp add: demo_endpoint_def str_def)

lemma demo_fetch_shop:
  "fetch demo_host (graphql_request demo_host (demo_params (str ''demo.myshop.test'')))
     = Inr \<lparr>status = 200, statusText = str ''OK'', body_text = demo_shop_text\<rparr>"
  by (simp add: demo_host_def demo_fetch_def demo_graphql_url [simplified demo_host_def])
     (simp add: demo_endpoint_def str_def)



lemma demo_parse_null_data:
  "JSON_parse demo_host (str ''{\"data\":null}'') = Some (JObj [(str ''data'', JNull)])"
  by (simp add: demo_host_def demo_parse_def demo_scopes_text_def demo_shop_text_def
      demo_body_text_def)

lemma demo_parse_shop:
  "JSON_parse demo_host demo_shop_text = Some (JObj [(str ''data'', demo_shop_data)])"
  by (simp add: demo_host_def demo_parse_def demo_scopes_text_def demo_shop_text_def)



text \<open>
  Claim C8, as amended: for every response with a success status whose body parses to a
  value \<open>data\<close> other than \<open>null\<close>, with no truthy \<open>errors\<close> member, \<open>runShopifyQuery\<close> returns
  the value of the \<open>data\<close> member when it is present and not \<open>null\<close>, and otherwise (the
  member is absent or \<open>null\<close>, or the parsed value is not an object) the entire parsed
  response, in both cases unchanged.
\<close>

theorem runShopifyQuery_data_or_response:
  assumes "fetch h (graphql_request h p) = Inr res" and "ok res"
    and "JSON_parse h (body_text res) = Some data" and "data \<noteq> JNull"
    and "\<not> (\<exists>kvs errs. data = JObj kvs \<and> map_of kvs (str ''errors'') = Some errs \<and> truthy errs)"
  shows "(\<forall>kvs d. data = JObj kvs \<and> map_of kvs (str ''data'') = Some d \<and> d \<noteq> JNull \<longrightarrow>
            fst (runShopifyQuery h p) = Inr d)
    \<and> (\<forall>kvs. data = JObj kvs \<and>
            (map_of kvs (str ''data'') = None \<or> map_of kvs (str ''data'') = Some JNull) \<longrightarrow>
            fst (runShopifyQuery h p) = Inr data)
    \<and> ((\<forall>kvs. data \<noteq> JObj kvs) \<longrightarrow> fst (runShopifyQuery h p) = Inr data)"
proof -
  have r: "fst (runShopifyQuery h p)
      = Inr (case get_prop data (str ''data'') of
               Inr (Some d) \<Rightarrow> if d = JNull then data else d
             | _ \<Rightarrow> data)"
    using runShopifyQuery_fetched [OF assms(1)] graphql_response_no_errors [OF assms(2-5)]
    by simp
  have 1: "\<forall>kvs d. data = JObj kvs \<and> map_of kvs (str ''data'') = Some d \<and> d \<noteq> JNull \<longrightarrow>
            fst (runShopifyQuery h p) = Inr d"
    using r by auto
  have 2: "\<forall>kvs. data = JObj kvs \<and>
            (map_of kvs (str ''data'') = None \<or> map_of kvs (str ''data'') = Some JNull) \<longrightarrow>
            fst (runShopifyQuery h p) = Inr data"
    using r by auto
  have 3: "(\<forall>kvs. data \<noteq> JObj kvs) \<longrightarrow> fst (runShopifyQuery h p) = Inr data"
    using r assms(4) by (cases data) auto
  from 1 2 3 show ?thesis by blast
qed

text \<open>
  Claim C8, refuted as stated: in the response \<open>{"data":null}\<close> the \<open>data\<close> member is
  present, yet \<open>??\<close> falls back and the entire response is returned, not \<open>null\<close>.
\<close>

theorem runShopifyQuery_null_data:
  "map_of [(str ''data'', JNull)] (str ''data'') = Some JNull
   \<and> fst (runShopifyQuery demo_host (demo_params (str ''null-data.myshop.test'')))
       = Inr (JObj [(str ''data'', JNull)])
   \<and> fst (runShopifyQuery demo_host (demo_params (str ''null-data.myshop.test''))) \<noteq> Inr JNull"
  by (simp add: runShopifyQuery_fetched [OF demo_fetch_null_data] graphql_response_def
      ok_def res_json_def demo_parse_null_data)

theorem runShopifyQuery_data_or_response_witness:
  "fetch demo_host (graphql_request demo_host (demo_params (str ''demo.myshop.test'')))
     = Inr \<lparr>status = 200, statusText = str ''OK'', body_text = demo_shop_text\<rparr>
   \<and> ok \<lparr>status = 200, statusText = str ''OK'', body_text = demo_shop_text\<rparr>
   \<and> JSON_parse demo_host demo_shop_text = Some (JObj [(str ''data'', demo_shop_data)])
   \<and> demo_shop_data \<noteq> JNull
   \<and> fst (runShopifyQuery demo_host (demo_params (str ''demo.myshop.test''))) = Inr demo_shop_data"
proof -
  let ?res = "\<lparr>status = 200, statusText = str ''OK'', body_text = demo_shop_text\<rparr>"
  have okr: "ok ?res" by (simp add: ok_def)
  have p: "JSON_parse demo_host (body_text ?res) = Some (JObj [(str ''data'', demo_shop_data)])"
    using demo_parse_shop by simp
  have n: "JObj [(str ''data'', demo_shop_data)] \<noteq> JNull" by simp
  have e: "\<not> (\<exists>kvs errs. JObj [(str ''data'', demo_shop_data)] = JObj kvs
              \<and> map_of kvs (str ''errors'') = Some errs \<and> truthy errs)"
    by simp
  have d: "demo_shop_data \<noteq> JNull" by (simp add: demo_shop_data_def)
  have m: "map_of [(str ''data'', demo_shop_data)] (str ''data'') = Some demo_shop_data" by simp
  from runShopifyQuery_data_or_response [OF demo_fetch_shop okr p n e] m d
  have "fst (runShopifyQuery demo_host (demo_params (str ''demo.myshop.test''))) = Inr demo_shop_data"
    by blast
  with demo_fetch_shop okr demo_parse_shop d show ?thesis by simp
qed

section \<open>The HTTP server\<close>

lemma sendJson_sel [simp]:
  "statusCode (sendJson h code d) = code"
  "res_payload (sendJson h code d) = Some (JSON_stringify h d)"
  "res_headers (sendJson h code d) =
     [(str ''Content-Type'', str ''application/json''),
      (str ''Access-Control-Allow-Origin'', str ''*''),
      (str ''Access-Control-Allow-Methods'', str ''POST, GET, OPTIONS''),
      (str ''Access-Control-Allow-Headers'', str ''Content-Type, Authorization'')]"
  by (simp_all add: sendJson_def)

lemma startsWith_append [simp]: "startsWith (p @ s) p"
  by (simp add: startsWith_def)

lemma startsWith_split: "startsWith a p \<Longrightarrow> a = p @ slice a (length p)"
  unfolding startsWith_def slice_def by (metis append_take_drop_id)

lemma validateApiKey_iff:
  assumes "k \<noteq> []"
  shows "validateApiKey (Some k) req \<longleftrightarrow>
           (\<exists>a. req_authorization req = Some a \<and>
                (a = str ''Bearer '' @ k \<or> a = k \<and> \<not> startsWith k (str ''Bearer '')))"
proof (cases "req_authorization req")
  case None
  with assms show ?thesis by (simp add: validateApiKey_def)
next
  case (Some a)
  show ?thesis
  proof (cases "startsWith a (str ''Bearer '')")
    case True
    have l7: "length (str ''Bearer '') = 7" by simp
    have a: "a = str ''Bearer '' @ slice a 7"
      using startsWith_split [OF True] by (simp only: l7)
    have "str ''Bearer '' \<noteq> []" by simp
    then have ne: "a \<noteq> []" using a by (metis append_is_Nil_conv)
    have "slice a 7 = k \<longleftrightarrow> a = str ''Bearer '' @ k"
      using a by (metis same_append_eq)
    moreover have "a = k \<and> \<not> startsWith k (str ''Bearer '') \<longleftrightarrow> False"
      using True by auto
    moreover have "validateApiKey (Some k) req \<longleftrightarrow> slice a 7 = k"
      using Some True assms ne by (simp add: validateApiKey_def Let_def)
    ultimately show ?thesis using Some by auto
  next
    case False
    then have "a \<noteq> str ''Bearer '' @ k" by auto
    moreover have "a = [] \<Longrightarrow> a \<noteq> k" using assms by simp
    ultimately show ?thesis
      using Some False assms by (auto simp: validateApiKey_def Let_def)
  qed
qed


lemma handleGraphQLRequest_unauthorized:
  "\<not> validateApiKey key req \<Longrightarrow>
     handleGraphQLRequest h key req config
       = (sendError h 401 (str ''Unauthorized: Invalid or missing API key''), [])"
  by (simp add: handleGraphQLRequest_def)


lemma handleGraphQLRequest_invalid_json:
  assumes "validateApiKey key req" and "req_body req = Body b" and "JSON_parse h b = None"
  shows "handleGraphQLRequest h key req config
           = (sendError h 500 (str ''Invalid JSON body''), [])"
  using assms by (simp add: handleGraphQLRequest_def parseRequestBody_def)

lemma handleGraphQLRequest_null_body:
  assumes "validateApiKey key req" and "req_body req = Body b" and "JSON_parse h b = Some JNull"
  shows "handleGraphQLRequest h key req config
           = (sendError h 500 (host_message h TypeError), [])"
  using assms by (simp add: handleGraphQLRequest_def parseRequestBody_def)

lemma handleGraphQLRequest_missing_query:
  assumes "validateApiKey key req" and "req_body req = Body b"
    and "JSON_parse h b = Some parsed" and "parsed \<noteq> JNull"
    and "\<not> (\<exists>kvs q. parsed = JObj kvs \<and> map_of kvs (str ''query'') = Some (JStr q) \<and> q \<noteq> [])"
  shows "handleGraphQLRequest h key req config
           = (sendError h 400 (str ''Missing or invalid 'query' field''), [])"
proof -
  obtain qo where q: "get_prop parsed (str ''query'') = Inr qo"
    using assms(4) by (cases parsed) auto
  obtain vo where v: "get_prop parsed (str ''variables'') = Inr vo"
    using assms(4) by (cases parsed) auto
  have "\<not> (\<exists>s. qo = Some (JStr s) \<and> s \<noteq> [])"
    using assms(5) q by (cases parsed) auto
  then have "(case qo of
        Some (JStr s) \<Rightarrow>
          if s = [] then (sendError h 400 (str ''Missing or invalid 'query' field''), [])
          else (case validateAndQuery h config s vo of
                  (Inl err, calls) \<Rightarrow> (sendError h 500 (message h err), calls)
                | (Inr data, calls) \<Rightarrow> (sendJson h 200 (JObj [(str ''data'', data)]), calls))
      | _ \<Rightarrow> (sendError h 400 (str ''Missing or invalid 'query' field''), []))
      = (sendError h 400 (str ''Missing or invalid 'query' field''), [])"
    by (auto split: option.splits json.splits)
  with assms(1-3) q v show ?thesis
    by (simp add: handleGraphQLRequest_def parseRequestBody_def)
qed

lemma handleGraphQLRequest_sendJson:
  "\<exists>code d calls. handleGraphQLRequest h key req config = (sendJson h code d, calls)"
  unfolding handleGraphQLRequest_def sendError_def
  by (auto split: sum.splits option.splits json.splits prod.splits)

lemma listener_post_graphql:
  assumes "req_method req = str ''POST''" and "req_pathname req = Some (str ''/graphql'')"
  shows "listener h key config req
           = (Some (fst (handleGraphQLRequest h key req config)),
              snd (handleGraphQLRequest h key req config))"
  using assms by (simp add: listener_def split: prod.splits)

lemma str_eq_append [simp]: "str a = str b @ str c \<longleftrightarrow> a = b @ c"
  by (metis str_append str_inj)


text \<open>
  What the check accepts, for a non-empty configured secret \<open>k\<close>: the header \<open>Bearer\<close>, a
  space and \<open>k\<close>; and \<open>k\<close> itself unless \<open>k\<close> begins with \<open>Bearer\<close> and a space, since a header
  that begins so always loses its first seven characters before the comparison. A
  rejected request to \<open>POST /graphql\<close> gets status 401 with no request to the platform.
\<close>

lemma validateApiKey_two_forms:
  assumes "k \<noteq> []"
  shows "(validateApiKey (Some k) req \<longleftrightarrow>
            (\<exists>a. req_authorization req = Some a \<and>
                 (a = str ''Bearer '' @ k \<or> a = k \<and> \<not> startsWith k (str ''Bearer ''))))
    \<and> (\<not> validateApiKey (Some k) req \<and> req_method req = str ''POST''
          \<and> req_pathname req = Some (str ''/graphql'') \<longrightarrow>
        (\<exists>r. listener h (Some k) config req = (Some r, []) \<and> statusCode r = 401))"
proof -
  have "\<exists>r. listener h (Some k) config req = (Some r, []) \<and> statusCode r = 401"
    if "\<not> validateApiKey (Some k) req" "req_method req = str ''POST''"
      "req_pathname req = Some (str ''/graphql'')"
    using that
    by (simp add: listener_post_graphql handleGraphQLRequest_unauthorized sendError_def)
  then show ?thesis using validateApiKey_iff [OF assms] by blast
qed

text \<open>
  Claim C9, at the failing input: the comment of line 60 says that both \<open>Bearer\<close> followed
  by the token and the token passed directly are supported. With the configured secret
  \<open>Bearer x\<close>, the header that is the secret passed directly is rejected and the request
  to \<open>POST /graphql\<close> gets status 401: the header begins with \<open>Bearer\<close> and a space, so its
  first seven characters are cut off and \<open>x\<close> is compared with the secret.
\<close>

theorem validateApiKey_bare_secret_rejected:
  "\<not> validateApiKey (Some (str ''Bearer x''))
        (demo_request ''POST'' ''/graphql'' (Some (str ''Bearer x'')) demo_body_text)
   \<and> fst (listener demo_host (Some (str ''Bearer x'')) demo_config
        (demo_request ''POST'' ''/graphql'' (Some (str ''Bearer x'')) demo_body_text))
       = Some (sendError demo_host 401 (str ''Unauthorized: Invalid or missing API key''))"
proof -
  have 1: "\<not> validateApiKey (Some (str ''Bearer x''))
        (demo_request ''POST'' ''/graphql'' (Some (str ''Bearer x'')) demo_body_text)"
    by (simp add: validateApiKey_def demo_request_def startsWith_def slice_def Let_def str_def)
  show ?thesis using 1
    by (simp add: listener_post_graphql demo_request_def handleGraphQLRequest_unauthorized)
qed

lemma validateApiKey_two_forms_example:
  "str ''s3cret'' \<noteq> []
   \<and> validateApiKey (Some (str ''s3cret''))
        (demo_request ''POST'' ''/graphql'' (Some (str ''Bearer s3cret'')) demo_body_text)
   \<and> validateApiKey (Some (str ''s3cret''))
        (demo_request ''POST'' ''/graphql'' (Some (str ''s3cret'')) demo_body_text)
   \<and> \<not> validateApiKey (Some (str ''s3cret''))
        (demo_request ''POST'' ''/graphql'' (Some (str ''Basic s3cret'')) demo_body_text)
   \<and> (\<exists>r. listener demo_host (Some (str ''s3cret'')) demo_config
             (demo_request ''POST'' ''/graphql'' (Some (str ''Basic s3cret'')) demo_body_text)
           = (Some r, []) \<and> statusCode r = 401)"
proof -
  have k: "str ''s3cret'' \<noteq> []" by simp
  note t = validateApiKey_two_forms [OF k]
  have a: "req_authorization (demo_request m p x b) = x"
    "req_method (demo_request m p x b) = str m"
    "req_pathname (demo_request m p x b) = Some (str p)" for m p x b
    by (simp_all add: demo_request_def)
  have n: "\<not> startsWith (str ''s3cret'') (str ''Bearer '')"
    by (simp add: startsWith_def str_def)
  have 1: "validateApiKey (Some (str ''s3cret''))
        (demo_request ''POST'' ''/graphql'' (Some (str ''Bearer s3cret'')) demo_body_text)"
    using t [of "demo_request ''POST'' ''/graphql'' (Some (str ''Bearer s3cret'')) demo_body_text"]
    by (simp add: a)
  have 2: "validateApiKey (Some (str ''s3cret''))
        (demo_request ''POST'' ''/graphql'' (Some (str ''s3cret'')) demo_body_text)"
    using t [of "demo_request ''POST'' ''/graphql'' (Some (str ''s3cret'')) demo_body_text"] n
    by (simp add: a)
  have 3: "\<not> validateApiKey (Some (str ''s3cret''))
        (demo_request ''POST'' ''/graphql'' (Some (str ''Basic s3cret'')) demo_body_text)"
    using t [of "demo_request ''POST'' ''/graphql'' (Some (str ''Basic s3cret'')) demo_body_text"]
    by (simp add: a str_def)
  have 4: "\<exists>r. listener demo_host (Some (str ''s3cret'')) demo_config
             (demo_request ''POST'' ''/graphql'' (Some (str ''Basic s3cret'')) demo_body_text)
           = (Some r, []) \<and> statusCode r = 401"
    using t [of "demo_request ''POST'' ''/graphql'' (Some (str ''Basic s3cret'')) demo_body_text"
        demo_host demo_config] 3
    by (simp add: a)
  from k 1 2 3 4 show ?thesis by blast
qed


lemma demo_request_sel [simp]:
  "req_authorization (demo_request m p x b) = x"
  "req_method (demo_request m p x b) = str m"
  "req_pathname (demo_request m p x b) = Some (str p)"
  "req_body (demo_request m p x b) = Body b"
  by (simp_all add: demo_request_def)


lemma demo_parse_not_json: "JSON_parse demo_host (str ''not json'') = None"
  by (simp add: demo_host_def demo_parse_def demo_scopes_text_def demo_shop_text_def
      demo_body_text_def)



text \<open>
  Claim C7, as amended: among the requests whose target \<open>new URL\<close> parses (the constructor
  of line 151 does not throw, so that there is a path), a request whose method is not
  \<open>OPTIONS\<close> and whose path is none of \<open>/\<close>, \<open>/health\<close> and \<open>/graphql\<close> gets status 404; a
  request to \<open>/graphql\<close> whose method is none of \<open>POST\<close>, \<open>GET\<close> and \<open>OPTIONS\<close> gets status
  405; a request to \<open>/\<close> or \<open>/health\<close> gets the liveness payload with status 200 whatever
  its method, \<open>OPTIONS\<close> apart. None of them sends a request to the platform. A request
  whose target does not parse is answered by nothing and is outside this statement.
\<close>

theorem listener_routing:
  "(req_pathname req = Some path \<and> req_method req \<noteq> str ''OPTIONS'' \<and>
      path \<noteq> str ''/'' \<and> path \<noteq> str ''/health'' \<and> path \<noteq> str ''/graphql'' \<longrightarrow>
      (\<exists>r. listener h key config req = (Some r, []) \<and> statusCode r = 404))
   \<and> (req_pathname req = Some (str ''/graphql'') \<and> req_method req \<noteq> str ''OPTIONS'' \<and>
      req_method req \<noteq> str ''POST'' \<and> req_method req \<noteq> str ''GET'' \<longrightarrow>
      (\<exists>r. listener h key config req = (Some r, []) \<and> statusCode r = 405))
   \<and> (req_pathname req = Some path \<and> (path = str ''/'' \<or> path = str ''/health'') \<and>
      req_method req \<noteq> str ''OPTIONS'' \<longrightarrow>
      listener h key config req = (Some (handleHealthCheck h), [])
      \<and> statusCode (handleHealthCheck h) = 200)"
  by (auto simp: listener_def sendError_def handleHealthCheck_def)

text \<open>
  Claim C7, refuted as stated: \<open>POST /health\<close> is answered with the liveness payload and
  status 200, not 405; the method is read only on the \<open>/graphql\<close> route.
\<close>

theorem listener_health_any_method:
  "listener demo_host None demo_config (demo_request ''POST'' ''/health'' None [])
     = (Some (handleHealthCheck demo_host), [])
   \<and> statusCode (handleHealthCheck demo_host) = 200"
  by (simp add: listener_def handleHealthCheck_def)

theorem listener_routing_witness:
  "(\<exists>r. listener demo_host None demo_config (demo_request ''GET'' ''/nope'' None [])
          = (Some r, []) \<and> statusCode r = 404)
   \<and> (\<exists>r. listener demo_host None demo_config (demo_request ''PUT'' ''/graphql'' None [])
          = (Some r, []) \<and> statusCode r = 405)
   \<and> listener demo_host None demo_config (demo_request ''DELETE'' ''/'' None [])
       = (Some (handleHealthCheck demo_host), [])"
proof -
  have 1: "\<exists>r. listener demo_host None demo_config (demo_request ''GET'' ''/nope'' None [])
          = (Some r, []) \<and> statusCode r = 404"
    using listener_routing [of "demo_request ''GET'' ''/nope'' None []" "str ''/nope''"
        demo_host None demo_config]
    by simp
  have 2: "\<exists>r. listener demo_host None demo_config (demo_request ''PUT'' ''/graphql'' None [])
          = (Some r, []) \<and> statusCode r = 405"
    using listener_routing [of "demo_request ''PUT'' ''/graphql'' None []" "str ''/graphql''"
        demo_host None demo_config]
    by simp
  have 3: "listener demo_host None demo_config (demo_request ''DELETE'' ''/'' None [])
       = (Some (handleHealthCheck demo_host), [])"
    using listener_routing [of "demo_request ''DELETE'' ''/'' None []" "str ''/''"
        demo_host None demo_config]
    by simp
  from 1 2 3 show ?thesis by blast
qed

lemma listener_response_shape:
  "listener h key config req = (Some r, calls) \<Longrightarrow> r = preflight \<or> (\<exists>code d. r = sendJson h code d)"
proof -
  assume a: "listener h key config req = (Some r, calls)"
  obtain code d cs where g: "handleGraphQLRequest h key req config = (sendJson h code d, cs)"
    using handleGraphQLRequest_sendJson by blast
  from a g show ?thesis
    by (auto simp: listener_def sendError_def handleHealthCheck_def handleIntrospection_def
        split: option.splits if_splits)
qed

text \<open>
  Claim C10: every response the listener sends, of whatever status, carries
  \<open>Access-Control-Allow-Origin: *\<close>, \<open>Access-Control-Allow-Methods\<close> and
  \<open>Access-Control-Allow-Headers\<close>; every response with a body is declared as JSON.
\<close>

theorem listener_cors_headers:
  "listener h key config req = (Some r, calls) \<longrightarrow>
     map_of (res_headers r) (str ''Access-Control-Allow-Origin'') = Some (str ''*'')
     \<and> map_of (res_headers r) (str ''Access-Control-Allow-Methods'')
         = Some (str ''POST, GET, OPTIONS'')
     \<and> map_of (res_headers r) (str ''Access-Control-Allow-Headers'')
         = Some (str ''Content-Type, Authorization'')
     \<and> (res_payload r \<noteq> None \<longrightarrow>
          map_of (res_headers r) (str ''Content-Type'') = Some (str ''application/json''))"
proof
  assume "listener h key config req = (Some r, calls)"
  then have "r = preflight \<or> (\<exists>code d. r = sendJson h code d)"
    by (rule listener_response_shape)
  then show "map_of (res_headers r) (str ''Access-Control-Allow-Origin'') = Some (str ''*'')
     \<and> map_of (res_headers r) (str ''Access-Control-Allow-Methods'')
         = Some (str ''POST, GET, OPTIONS'')
     \<and> map_of (res_headers r) (str ''Access-Control-Allow-Headers'')
         = Some (str ''Content-Type, Authorization'')
     \<and> (res_payload r \<noteq> None \<longrightarrow>
          map_of (res_headers r) (str ''Content-Type'') = Some (str ''application/json''))"
    by (auto simp: preflight_def)
qed

lemma demo_invalid_json:
  "listener demo_host None demo_config (demo_request ''POST'' ''/graphql'' None (str ''not json''))
     = (Some (sendError demo_host 500 (str ''Invalid JSON body'')), [])"
proof -
  have "validateApiKey None (demo_request ''POST'' ''/graphql'' None (str ''not json''))"
    by (simp add: validateApiKey_def)
  then show ?thesis
    using handleGraphQLRequest_invalid_json [of None
        "demo_request ''POST'' ''/graphql'' None (str ''not json'')" "str ''not json''" demo_host
        demo_config] demo_parse_not_json
    by (simp add: listener_post_graphql)
qed

text \<open>
  Claim C4, at the failing input: a \<open>POST /graphql\<close> whose body is not JSON passes the
  secret check (none is configured), the rejection of \<open>parseRequestBody\<close> is caught by the
  handler's own \<open>catch\<close>, and the response has status 500 with the message
  \<open>Invalid JSON body\<close>, where the claim has 400. The platform is not contacted. The lemmas
  \<open>handleGraphQLRequest_invalid_json\<close> and \<open>handleGraphQLRequest_null_body\<close> give the same
  for every host; \<open>handleGraphQLRequest_missing_query\<close> is the part of the claim that
  holds.
\<close>

theorem listener_invalid_json_500:
  "JSON_parse demo_host (str ''not json'') = None
   \<and> listener demo_host None demo_config
       (demo_request ''POST'' ''/graphql'' None (str ''not json''))
     = (Some (sendError demo_host 500 (str ''Invalid JSON body'')), [])
   \<and> statusCode (sendError demo_host 500 (str ''Invalid JSON body'')) = 500
   \<and> res_payload (sendError demo_host 500 (str ''Invalid JSON body''))
     = Some (str ''{\"errors\":[{\"message\":\"Invalid JSON body\"}]}'')"
  using demo_invalid_json demo_parse_not_json
  by (simp add: sendError_def demo_host_def demo_stringify_def errors_payload_def)

theorem listener_cors_headers_witness:
  "listener demo_host None demo_config
       (demo_request ''POST'' ''/graphql'' None (str ''not json''))
     = (Some (sendError demo_host 500 (str ''Invalid JSON body'')), [])
   \<and> map_of (res_headers (sendError demo_host 500 (str ''Invalid JSON body'')))
        (str ''Access-Control-Allow-Origin'') = Some (str ''*'')
   \<and> map_of (res_headers (sendError demo_host 500 (str ''Invalid JSON body'')))
        (str ''Access-Control-Allow-Methods'') = Some (str ''POST, GET, OPTIONS'')
   \<and> map_of (res_headers (sendError demo_host 500 (str ''Invalid JSON body'')))
        (str ''Access-Control-Allow-Headers'') = Some (str ''Content-Type, Authorization'')
   \<and> res_payload (sendError demo_host 500 (str ''Invalid JSON body'')) \<noteq> None
   \<and> map_of (res_headers (sendError demo_host 500 (str ''Invalid JSON body'')))
        (str ''Content-Type'') = Some (str ''application/json'')"
proof -
  have p: "res_payload (sendError demo_host 500 (str ''Invalid JSON body'')) \<noteq> None"
    by (simp add: sendError_def)
  from listener_cors_headers [of demo_host None demo_config
      "demo_request ''POST'' ''/graphql'' None (str ''not json'')"
      "sendError demo_host 500 (str ''Invalid JSON body'')" "[]"] demo_invalid_json p
  show ?thesis by blast
qed

end
